theory Spec2Isabelle
  imports Complex_Main "HOL-Library.Sublist"
begin

section \<open>Values of the feed\<close>

text \<open>
  The event feed is JSON: a magnitude or a coordinate is a number, \<open>null\<close>, or absent
  (reading it gives \<open>undefined\<close>). A number is the real that the double denotes: a
  comparison of two finite doubles is the comparison of these reals, and an arithmetic
  operation gives the exact result rounded to the nearest double (\<open>roundToDouble\<close>
  below). Results beyond the largest double are not modelled.
\<close>

datatype jsval = Undefined | Null | Num real

text \<open>ToNumber of ECMAScript; \<open>None\<close> is NaN.\<close>

fun toNumber :: "jsval \<Rightarrow> real option" where
  "toNumber Undefined = None"
| "toNumber Null = Some 0"
| "toNumber (Num x) = Some x"

text \<open>The relational operators with a number on the right: false as soon as a side is NaN.\<close>

definition js_ge :: "jsval \<Rightarrow> real \<Rightarrow> bool" where
  "js_ge v m = (case toNumber v of None \<Rightarrow> False | Some x \<Rightarrow> m \<le> x)"

definition js_le :: "jsval \<Rightarrow> real \<Rightarrow> bool" where
  "js_le v m = (case toNumber v of None \<Rightarrow> False | Some x \<Rightarrow> x \<le> m)"

definition js_lt :: "jsval \<Rightarrow> real \<Rightarrow> bool" where
  "js_lt v m = (case toNumber v of None \<Rightarrow> False | Some x \<Rightarrow> x < m)"

subsection \<open>Double arithmetic\<close>

text \<open>The number of binary digits of a positive integer.\<close>

function bitLength :: "int \<Rightarrow> nat" where
  "bitLength n = (if n \<le> 0 then 0 else Suc (bitLength (n div 2)))"
  by pat_completeness auto
termination
  by (relation "measure nat") auto

declare bitLength.simps [simp del]

definition pow2 :: "int \<Rightarrow> real" where
  "pow2 k = (if 0 \<le> k then 2 ^ nat k else 1 / 2 ^ nat (- k))"

text \<open>The binary exponent of a positive real: \<open>pow2 e \<le> x < pow2 (e + 1)\<close>.\<close>

definition exponentOf :: "real \<Rightarrow> int" where
  "exponentOf x =
     (if 1 \<le> x then int (bitLength \<lfloor>x\<rfloor>) - 1
      else - int (bitLength (\<lceil>1 / x\<rceil> - 1)))"

text \<open>The distance between neighbouring doubles at a positive real: 53 significant
  binary digits, and the spacing of the subnormals below \<open>pow2 (- 1022)\<close>.\<close>

definition ulp :: "real \<Rightarrow> real" where
  "ulp x = pow2 (max (exponentOf x) (- 1022) - 52)"

text \<open>The nearest integer; of two equally near, the even one.\<close>

definition roundHalfEven :: "real \<Rightarrow> int" where
  "roundHalfEven y =
     (let f = \<lfloor>y\<rfloor>; d = y - of_int f
      in if d < 1 / 2 then f else if 1 / 2 < d then f + 1 else if even f then f else f + 1)"

text \<open>Round to nearest, ties to even: the rounding of every arithmetic operation.\<close>

definition roundToDouble :: "real \<Rightarrow> real" where
  "roundToDouble x =
     (if x = 0 then 0
      else if 0 < x then of_int (roundHalfEven (x / ulp x)) * ulp x
      else - (of_int (roundHalfEven (- x / ulp (- x))) * ulp (- x)))"

text \<open>\<open>a * b\<close> on two numbers.\<close>

definition js_times :: "real \<Rightarrow> real \<Rightarrow> real" where
  "js_times a b = roundToDouble (a * b)"

text \<open>The reals that are finite doubles: an integer of less than 54 binary digits,
  scaled by a power of two from \<open>pow2 (- 1074)\<close> to \<open>pow2 971\<close>.\<close>

definition isDouble :: "real \<Rightarrow> bool" where
  "isDouble x =
     (\<exists>(m :: int) (k :: nat). \<bar>m\<bar> < 2 ^ 53 \<and>
        (k \<le> 971 \<and> x = of_int m * 2 ^ k \<or> k \<le> 1074 \<and> x = of_int m / 2 ^ k))"

subsection \<open>Strings\<close>

text \<open>
  A string is the list of its bytes in UTF-8. \<open>String.prototype.toLowerCase\<close> is a
  library function over all of Unicode: the definitions that call it take it as the
  argument \<open>toLowerCase\<close>, and what is proved of them holds for every such function.
  \<open>asciiToLowerCase\<close> is what it does on a string of ASCII characters; only the sample
  data below use it.
\<close>

definition asciiToLowerCaseChar :: "char \<Rightarrow> char" where
  "asciiToLowerCaseChar c =
     (case map_of (zip ''ABCDEFGHIJKLMNOPQRSTUVWXYZ'' ''abcdefghijklmnopqrstuvwxyz'') c of
        Some d \<Rightarrow> d | None \<Rightarrow> c)"

definition asciiToLowerCase :: "string \<Rightarrow> string" where
  "asciiToLowerCase s = map asciiToLowerCaseChar s"

fun startsWith :: "string \<Rightarrow> string \<Rightarrow> bool" where
  "startsWith s [] = True"
| "startsWith [] (c # t) = False"
| "startsWith (d # s) (c # t) = (d = c \<and> startsWith s t)"

text \<open>\<open>s.includes(t)\<close>: \<open>t\<close> occurs in \<open>s\<close> at some position.\<close>

fun str_includes :: "string \<Rightarrow> string \<Rightarrow> bool" where
  "str_includes [] t = (t = [])"
| "str_includes (c # s) t = (startsWith (c # s) t \<or> str_includes s t)"

section \<open>The state of the map page\<close>

text \<open>One feature of the event feed: \<open>properties.mag\<close>, \<open>properties.place\<close>
  (\<open>None\<close> when null or absent), \<open>properties.time\<close>, \<open>geometry.coordinates\<close>.\<close>

record event =
  eq_id :: string
  mag :: jsval
  place :: "string option"
  time_ms :: int
  coordinates :: "jsval list"

text \<open>One feature of the plate-boundary document: what it had when fetched
  (\<open>segment\<close>), and \<open>properties.boundaryType\<close> (\<open>None\<close> is undefined).\<close>

record boundary =
  segment :: string
  boundaryType :: "string option"

text \<open>A JavaScript number that may be NaN or infinite.\<close>

datatype number = NaN | MinusInfinity | PlusInfinity | Finite real

text \<open>
  The \<open>useState\<close> cells of \<open>CoreMap\<close>. \<open>pendingFetches\<close> is not a cell of the
  component: it lists, oldest first, the time-range token of every event-feed request
  that has been issued and has not completed yet.
\<close>

record state =
  earthquakes :: "event list"
  plates :: "boundary list option"
  minMagnitude :: real
  maxMagnitude :: real
  minDepth :: real
  maxDepth :: real
  timeRange :: string
  searchLocation :: string
  locationCoords :: "(number \<times> number) option"
  placeFilter :: string
  showExplanation :: bool
  mapReady :: bool
  pendingFetches :: "string list"

section \<open>The filter\<close>

text \<open>\<open>eq.geometry.coordinates[2]\<close>: undefined when the array is shorter.\<close>

definition depthOf :: "event \<Rightarrow> jsval" where
  "depthOf eq = (if 2 < length (coordinates eq) then coordinates eq ! 2 else Undefined)"

text \<open>\<open>eq.properties.place || ""\<close>\<close>

definition placeOrEmpty :: "event \<Rightarrow> string" where
  "placeOrEmpty eq = (case place eq of None \<Rightarrow> [] | Some p \<Rightarrow> p)"

text \<open>The callback of \<open>earthquakes.filter\<close>.\<close>

definition passesFilter :: "(string \<Rightarrow> string) \<Rightarrow> state \<Rightarrow> event \<Rightarrow> bool" where
  "passesFilter toLowerCase st eq =
     (let m = mag eq;
          depth = depthOf eq;
          p = placeOrEmpty eq;
          placeMatch = (if placeFilter st \<noteq> []
                        then str_includes (toLowerCase p) (toLowerCase (placeFilter st))
                        else True)
      in js_ge m (minMagnitude st) \<and> js_le m (maxMagnitude st) \<and>
         js_ge depth (minDepth st) \<and> js_le depth (maxDepth st) \<and> placeMatch)"

definition filteredEarthquakes :: "(string \<Rightarrow> string) \<Rightarrow> state \<Rightarrow> event list" where
  "filteredEarthquakes toLowerCase st = filter (passesFilter toLowerCase st) (earthquakes st)"

subsection \<open>The criteria in the words of the specification\<close>

text \<open>A value lies within \<open>[lo, hi]\<close> when it is a number between the bounds; null and
  an absent value are no numbers.\<close>

definition liesWithin :: "real \<Rightarrow> real \<Rightarrow> jsval \<Rightarrow> bool" where
  "liesWithin lo hi v = (case v of Num x \<Rightarrow> lo \<le> x \<and> x \<le> hi | Null \<Rightarrow> False | Undefined \<Rightarrow> False)"

text \<open>The place contains the keyword, both in lower case.\<close>

definition containsIgnoringCase :: "(string \<Rightarrow> string) \<Rightarrow> string \<Rightarrow> string \<Rightarrow> bool" where
  "containsIgnoringCase toLowerCase p keyword = sublist (toLowerCase keyword) (toLowerCase p)"

definition meetsCriteria :: "(string \<Rightarrow> string) \<Rightarrow> state \<Rightarrow> event \<Rightarrow> bool" where
  "meetsCriteria toLowerCase st eq =
     (liesWithin (minMagnitude st) (maxMagnitude st) (mag eq) \<and>
      liesWithin (minDepth st) (maxDepth st) (depthOf eq) \<and>
      (placeFilter st = [] \<or>
       containsIgnoringCase toLowerCase (case place eq of None \<Rightarrow> [] | Some p \<Rightarrow> p)
         (placeFilter st)))"

text \<open>The same criteria with a null magnitude and a null depth read as the number 0.\<close>

definition nullAsZero :: "jsval \<Rightarrow> jsval" where
  "nullAsZero v = (case v of Null \<Rightarrow> Num 0 | Num x \<Rightarrow> Num x | Undefined \<Rightarrow> Undefined)"

definition meetsCriteriaNullAsZero :: "(string \<Rightarrow> string) \<Rightarrow> state \<Rightarrow> event \<Rightarrow> bool" where
  "meetsCriteriaNullAsZero toLowerCase st eq =
     (liesWithin (minMagnitude st) (maxMagnitude st) (nullAsZero (mag eq)) \<and>
      liesWithin (minDepth st) (maxDepth st) (nullAsZero (depthOf eq)) \<and>
      (placeFilter st = [] \<or>
       containsIgnoringCase toLowerCase (case place eq of None \<Rightarrow> [] | Some p \<Rightarrow> p)
         (placeFilter st)))"

text \<open>A value has a numeric value between the bounds, null reading as the number 0.\<close>

definition withinRange :: "real \<Rightarrow> real \<Rightarrow> jsval \<Rightarrow> bool" where
  "withinRange lo hi v = (\<exists>x. toNumber v = Some x \<and> lo \<le> x \<and> x \<le> hi)"

text \<open>The criteria with every range at its widest and no keyword.\<close>

definition fullRange :: "state \<Rightarrow> state" where
  "fullRange st = st\<lparr>minMagnitude := 0, maxMagnitude := 10,
                     minDepth := 0, maxDepth := 700, placeFilter := []\<rparr>"

section \<open>The report\<close>

subsection \<open>Library functions\<close>

text \<open>\<open>Math.max(...vs)\<close> and \<open>Math.min(...vs)\<close>: every argument goes through ToNumber,
  a NaN argument makes the result NaN, no argument gives an infinity.\<close>

fun math_max :: "jsval list \<Rightarrow> number" where
  "math_max [] = MinusInfinity"
| "math_max (v # vs) =
     (case toNumber v of
        None \<Rightarrow> NaN
      | Some x \<Rightarrow>
          (case math_max vs of
             NaN \<Rightarrow> NaN
           | MinusInfinity \<Rightarrow> Finite x
           | PlusInfinity \<Rightarrow> PlusInfinity
           | Finite y \<Rightarrow> Finite (max x y)))"

fun math_min :: "jsval list \<Rightarrow> number" where
  "math_min [] = PlusInfinity"
| "math_min (v # vs) =
     (case toNumber v of
        None \<Rightarrow> NaN
      | Some x \<Rightarrow>
          (case math_min vs of
             NaN \<Rightarrow> NaN
           | PlusInfinity \<Rightarrow> Finite x
           | MinusInfinity \<Rightarrow> MinusInfinity
           | Finite y \<Rightarrow> Finite (min x y)))"

text \<open>\<open>a + b\<close> of the reducer \<open>(a, b) => a + b\<close>: \<open>a\<close> is the running sum (\<open>None\<close> is
  NaN), \<open>b\<close> the next magnitude.\<close>

definition js_add :: "real option \<Rightarrow> jsval \<Rightarrow> real option" where
  "js_add a b =
     (case a of None \<Rightarrow> None
      | Some x \<Rightarrow>
          (case toNumber b of None \<Rightarrow> None | Some y \<Rightarrow> Some (roundToDouble (x + y))))"

text \<open>A number in decimal, as a template literal prints a count.\<close>

fun showNat :: "nat \<Rightarrow> string" where
  "showNat n =
     (if n < 10 then [''0123456789'' ! n]
      else showNat (n div 10) @ [''0123456789'' ! (n mod 10)])"

declare showNat.simps [simp del]

subsection \<open>A plain object used as a counter\<close>

text \<open>
  \<open>counts[k] = (counts[k] || 0) + 1\<close> on an object literal \<open>{}\<close>. The object is the list
  of its own properties in creation order. A value is a count, or \<open>Text\<close>: the string
  that \<open>+ 1\<close> makes of a member inherited from \<open>Object.prototype\<close> (and of such a
  string again).
\<close>

datatype tally = Count nat | Text

type_synonym jsobject = "(string \<times> tally) list"

definition objectPrototypeMembers :: "string list" where
  "objectPrototypeMembers =
     [''constructor'', ''hasOwnProperty'', ''isPrototypeOf'', ''propertyIsEnumerable'',
      ''toLocaleString'', ''toString'', ''valueOf'', ''__defineGetter__'',
      ''__defineSetter__'', ''__lookupGetter__'', ''__lookupSetter__'']"

fun setProperty :: "jsobject \<Rightarrow> string \<Rightarrow> tally \<Rightarrow> jsobject" where
  "setProperty [] k v = [(k, v)]"
| "setProperty (p # ps) k v = (if fst p = k then (k, v) # ps else p # setProperty ps k v)"

text \<open>
  The key \<open>__proto__\<close> is the accessor of \<open>Object.prototype\<close>: reading it gives the
  prototype, and its setter ignores the string assigned, so no property is made. A key
  that names another inherited member reads as that member, which is truthy.
\<close>

definition increment :: "jsobject \<Rightarrow> string \<Rightarrow> jsobject" where
  "increment obj k =
     (if k = ''__proto__'' then obj
      else case map_of obj k of
             Some (Count n) \<Rightarrow> setProperty obj k (Count (n + 1))
           | Some Text \<Rightarrow> setProperty obj k Text
           | None \<Rightarrow>
               if k \<in> set objectPrototypeMembers then setProperty obj k Text
               else setProperty obj k (Count 1))"

text \<open>An array index: the canonical decimal form of an integer from 0 to \<open>2^32 - 2\<close>.\<close>

definition decimalValue :: "string \<Rightarrow> int" where
  "decimalValue s = foldl (\<lambda>n c. 10 * n + (of_char c - 48)) 0 s"

definition isArrayIndex :: "string \<Rightarrow> bool" where
  "isArrayIndex s =
     (s \<noteq> [] \<and> list_all (\<lambda>c. c \<in> set ''0123456789'') s \<and>
      (s = ''0'' \<or> hd s \<noteq> CHR ''0'') \<and> decimalValue s < 4294967295)"

text \<open>\<open>Object.entries\<close>: the array-index keys in ascending numeric order, then the
  other keys in creation order.\<close>

definition objectEntries :: "jsobject \<Rightarrow> (string \<times> tally) list" where
  "objectEntries obj =
     sort_key (\<lambda>p. decimalValue (fst p)) (filter (\<lambda>p. isArrayIndex (fst p)) obj) @
     filter (\<lambda>p. \<not> isArrayIndex (fst p)) obj"

text \<open>\<open>Array.prototype.sort\<close> with a comparator: a stable sort (ECMAScript 2019), here
  by insertion. An element goes before the first later element that the comparator
  does not put before it.\<close>

fun insertBy :: "('a \<Rightarrow> 'a \<Rightarrow> int) \<Rightarrow> 'a \<Rightarrow> 'a list \<Rightarrow> 'a list" where
  "insertBy cmp x [] = [x]"
| "insertBy cmp x (y # ys) = (if cmp x y \<le> 0 then x # y # ys else y # insertBy cmp x ys)"

definition array_sort :: "('a \<Rightarrow> 'a \<Rightarrow> int) \<Rightarrow> 'a list \<Rightarrow> 'a list" where
  "array_sort cmp xs = foldr (insertBy cmp) xs []"

text \<open>
  With a \<open>Text\<close> value among the entries, \<open>b[1] - a[1]\<close> is NaN, the comparator is not
  consistent and the order of the sort is left to the implementation, as is the text
  printed for the value: the result is \<open>None\<close>.
\<close>

definition numericEntries :: "(string \<times> tally) list \<Rightarrow> (string \<times> nat) list option" where
  "numericEntries es =
     those (map (\<lambda>p. case snd p of Count n \<Rightarrow> Some (fst p, n) | Text \<Rightarrow> None) es)"

subsection \<open>The statistics\<close>

text \<open>\<open>e.properties.place || "Unknown"\<close>\<close>

definition placeOrUnknown :: "event \<Rightarrow> string" where
  "placeOrUnknown e =
     (case place e of None \<Rightarrow> ''Unknown'' | Some p \<Rightarrow> if p = [] then ''Unknown'' else p)"

definition locationCounts :: "event list \<Rightarrow> jsobject" where
  "locationCounts fe = foldl increment [] (map placeOrUnknown fe)"

text \<open>The five entries kept, before they are printed: \<open>Object.entries\<close>, the sort
  by \<open>(a, b) => b[1] - a[1]\<close>, \<open>slice(0, 5)\<close>.\<close>

definition rankedLocations :: "event list \<Rightarrow> (string \<times> nat) list option" where
  "rankedLocations fe =
     map_option (\<lambda>es. take 5 (array_sort (\<lambda>a b. int (snd b) - int (snd a)) es))
       (numericEntries (objectEntries (locationCounts fe)))"

definition locationLabel :: "string \<times> nat \<Rightarrow> string" where
  "locationLabel p = fst p @ '' ('' @ showNat (snd p) @ '')''"

definition boundaryKey :: "boundary \<Rightarrow> string" where
  "boundaryKey f = (case boundaryType f of None \<Rightarrow> ''undefined'' | Some t \<Rightarrow> t)"

definition countPlates :: "boundary list option \<Rightarrow> jsobject" where
  "countPlates pl = (case pl of None \<Rightarrow> [] | Some fs \<Rightarrow> foldl increment [] (map boundaryKey fs))"

text \<open>
  The report. \<open>avgMag\<close> is the quotient, a double, before \<open>toFixed(2)\<close> prints it
  (\<open>None\<close> is NaN); \<open>topLocations\<close> is \<open>None\<close> where the order is left to the
  implementation.
\<close>

record report =
  total :: nat
  highMagCount :: nat
  medMagCount :: nat
  lowMagCount :: nat
  avgMag :: "real option"
  maxMag :: number
  minMag :: number
  stat_maxDepth :: number
  stat_minDepth :: number
  topLocations :: "string list option"
  plateCounts :: jsobject

text \<open>The callback of \<open>useMemo\<close>, as a function of the two values it reads.\<close>

definition summarize :: "event list \<Rightarrow> boundary list option \<Rightarrow> report option" where
  "summarize fe pl =
     (if length fe = 0 then None
      else
        let magnitudes = map mag fe;
            depths = map depthOf fe
        in Some \<lparr>total = length fe,
                 highMagCount = length (filter (\<lambda>m. js_ge m 5) magnitudes),
                 medMagCount = length (filter (\<lambda>m. js_ge m 3 \<and> js_lt m 5) magnitudes),
                 lowMagCount = length (filter (\<lambda>m. js_lt m 3) magnitudes),
                 avgMag = map_option (\<lambda>s. roundToDouble (s / real (length fe)))
                            (foldl js_add (Some 0) magnitudes),
                 maxMag = math_max magnitudes,
                 minMag = math_min magnitudes,
                 stat_maxDepth = math_max depths,
                 stat_minDepth = math_min depths,
                 topLocations = map_option (map locationLabel) (rankedLocations fe),
                 plateCounts = countPlates pl\<rparr>)"

definition stats :: "(string \<Rightarrow> string) \<Rightarrow> state \<Rightarrow> report option" where
  "stats toLowerCase st = summarize (filteredEarthquakes toLowerCase st) (plates st)"

datatype view = Message string | ReportView report

definition ExplanationPanel :: "(string \<Rightarrow> string) \<Rightarrow> state \<Rightarrow> view" where
  "ExplanationPanel toLowerCase st =
     (case stats toLowerCase st of
        None \<Rightarrow> Message ''No earthquakes match the current filters.''
      | Some r \<Rightarrow> ReportView r)"

subsection \<open>The ranking in the words of the specification\<close>

text \<open>The distinct elements of a list, each at the place of its first occurrence.\<close>

fun firstOccurrences :: "'a list \<Rightarrow> 'a list" where
  "firstOccurrences [] = []"
| "firstOccurrences (x # xs) = x # removeAll x (firstOccurrences xs)"





text \<open>The magnitudes that are not null.\<close>

definition nonNullMagnitudes :: "event list \<Rightarrow> jsval list" where
  "nonNullMagnitudes fe = filter (\<lambda>m. m \<noteq> Null) (map mag fe)"

text \<open>The magnitude of an event as a number, a null magnitude being the number 0. (An
  absent magnitude has no number; no filtered event has one.)\<close>

definition magnitudeValue :: "event \<Rightarrow> real" where
  "magnitudeValue e = (case mag e of Num x \<Rightarrow> x | Null \<Rightarrow> 0 | Undefined \<Rightarrow> 0)"

text \<open>The sum of a list of numbers from left to right, in double arithmetic.\<close>

definition doubleSum :: "real list \<Rightarrow> real" where
  "doubleSum vs = foldl (\<lambda>a v. roundToDouble (a + v)) 0 vs"

section \<open>Loading and searching\<close>

text \<open>What a request gives when it completes: \<open>Failed\<close> when \<open>fetch\<close> or \<open>res.json()\<close>
  rejects (the \<open>catch\<close> branch), the parsed body otherwise.\<close>

datatype 'a response = Failed | Ok 'a

text \<open>
  \<open>fetchEarthquakes\<close> after its awaits, for the request at position \<open>i\<close> of the pending
  ones: \<open>setEarthquakes(data.features)\<close>, or \<open>console.error\<close> and nothing else.
\<close>

definition earthquakesArrive :: "nat \<Rightarrow> event list response \<Rightarrow> state \<Rightarrow> state" where
  "earthquakesArrive i res st =
     (if i < length (pendingFetches st)
      then
        let st' = st\<lparr>pendingFetches :=
                       take i (pendingFetches st) @ drop (Suc i) (pendingFetches st)\<rparr>
        in (case res of Failed \<Rightarrow> st' | Ok features \<Rightarrow> st'\<lparr>earthquakes := features\<rparr>)
      else st)"

text \<open>\<open>setTimeRange\<close>: the effect that depends on \<open>timeRange\<close> runs again, and issues a
  request, when the value has changed.\<close>

definition selectTimeRange :: "string \<Rightarrow> state \<Rightarrow> state" where
  "selectTimeRange t st =
     (if t = timeRange st then st
      else st\<lparr>timeRange := t, pendingFetches := pendingFetches st @ [t]\<rparr>)"

text \<open>\<open>getRandomBoundaryType\<close>, given the value \<open>r\<close> that \<open>Math.random()\<close> returns. The
  product is a double product. Reading the array outside its bounds gives undefined.\<close>

definition getRandomBoundaryType :: "real \<Rightarrow> string option" where
  "getRandomBoundaryType r =
     (let types = [''Convergent'', ''Divergent'', ''Transform''];
          i = \<lfloor>js_times r (real (length types))\<rfloor>
      in if 0 \<le> i \<and> i < int (length types) then Some (types ! nat i) else None)"

text \<open>\<open>fetchPlates\<close> after its awaits; every feature comes with the value drawn for it.\<close>

definition fetchPlates :: "(boundary \<times> real) list response \<Rightarrow> state \<Rightarrow> state" where
  "fetchPlates res st =
     (case res of
        Failed \<Rightarrow> st
      | Ok features \<Rightarrow>
          st\<lparr>plates := Some (map (\<lambda>p. (fst p)\<lparr>boundaryType := getRandomBoundaryType (snd p)\<rparr>)
                                features)\<rparr>)"

definition boundaryColors :: "(string \<times> string) list" where
  "boundaryColors =
     [(''Convergent'', ''#FF0000''), (''Divergent'', ''#006400''), (''Transform'', ''#0000FF'')]"

definition boundaryDescriptions :: "(string \<times> string) list" where
  "boundaryDescriptions =
     [(''Convergent'', ''Convergent: Plates collide -> Strong earthquakes''),
      (''Divergent'', ''Divergent: Plates move apart -> Moderate earthquakes''),
      (''Transform'', ''Transform: Plates slide past -> Shallow earthquakes'')]"

text \<open>(The arrow of each description is written \<open>->\<close> here.)\<close>

text \<open>Reading \<open>table[k]\<close> on an object literal: its own property, a member inherited
  from \<open>Object.prototype\<close>, or undefined.\<close>

datatype member = Own string | Inherited | Absent

definition getMember :: "(string \<times> string) list \<Rightarrow> string \<Rightarrow> member" where
  "getMember table k =
     (case map_of table k of
        Some v \<Rightarrow> Own v
      | None \<Rightarrow> if k = ''__proto__'' \<or> k \<in> set objectPrototypeMembers then Inherited else Absent)"

text \<open>\<open>boundaryColors[feature.properties.boundaryType] || "#FF00FF"\<close>\<close>

definition styleColor :: "boundary \<Rightarrow> member" where
  "styleColor f =
     (case getMember boundaryColors (boundaryKey f) of
        Absent \<Rightarrow> Own ''#FF00FF''
      | m \<Rightarrow> m)"

text \<open>What \<open>handleSearch\<close> does besides updating the state.\<close>

datatype effect = GeocodeRequest string | Alert string | ConsoleError

text \<open>
  \<open>handleSearch\<close>, given what the geocoder answers if it is asked: the candidates, each
  as \<open>(parseFloat(lat), parseFloat(lon))\<close>. The request carries the query string.
\<close>

definition handleSearch :: "(number \<times> number) list response \<Rightarrow> state \<Rightarrow> state \<times> effect list" where
  "handleSearch res st =
     (if searchLocation st = [] then (st, [])
      else
        (case res of
           Failed \<Rightarrow> (st, [GeocodeRequest (searchLocation st), ConsoleError])
         | Ok [] \<Rightarrow> (st, [GeocodeRequest (searchLocation st), Alert ''Location not found!''])
         | Ok (c # cs) \<Rightarrow>
             (st\<lparr>locationCoords := Some c\<rparr>, [GeocodeRequest (searchLocation st)])))"

text \<open>A query of white space only (possibly empty).\<close>

definition whitespaceOnly :: "string \<Rightarrow> bool" where
  "whitespaceOnly q = list_all (\<lambda>c. c \<in> set [CHR '' '', CHR 0x09, CHR 0x0A, CHR 0x0D]) q"

subsection \<open>The session\<close>

datatype action =
    SetMinMagnitude real
  | SetMaxMagnitude real
  | SetMinDepth real
  | SetMaxDepth real
  | SetTimeRange string
  | SetSearchLocation string
  | SetPlaceFilter string
  | SetShowExplanation bool
  | MapReadyTimer
  | EarthquakesArrive nat "event list response"
  | PlatesArrive "(boundary \<times> real) list response"
  | SearchClick "(number \<times> number) list response"

fun step :: "action \<Rightarrow> state \<Rightarrow> state" where
  "step (SetMinMagnitude x) st = st\<lparr>minMagnitude := x\<rparr>"
| "step (SetMaxMagnitude x) st = st\<lparr>maxMagnitude := x\<rparr>"
| "step (SetMinDepth x) st = st\<lparr>minDepth := x\<rparr>"
| "step (SetMaxDepth x) st = st\<lparr>maxDepth := x\<rparr>"
| "step (SetTimeRange t) st = selectTimeRange t st"
| "step (SetSearchLocation q) st = st\<lparr>searchLocation := q\<rparr>"
| "step (SetPlaceFilter k) st = st\<lparr>placeFilter := k\<rparr>"
| "step (SetShowExplanation b) st = st\<lparr>showExplanation := b\<rparr>"
| "step MapReadyTimer st = st\<lparr>mapReady := True\<rparr>"
| "step (EarthquakesArrive i res) st = earthquakesArrive i res st"
| "step (PlatesArrive res) st = fetchPlates res st"
| "step (SearchClick res) st = fst (handleSearch res st)"

definition run :: "action list \<Rightarrow> state \<Rightarrow> state" where
  "run as st = foldl (\<lambda>s a. step a s) st as"

text \<open>\<open>Math.random()\<close> returns a double from 0 up to, not including, 1.\<close>

fun properDraws :: "action \<Rightarrow> bool" where
  "properDraws (PlatesArrive (Ok features)) =
     list_all (\<lambda>p. isDouble (snd p) \<and> 0 \<le> snd p \<and> snd p < 1) features"
| "properDraws a = True"

definition boundaryTypes :: "string option set" where
  "boundaryTypes = {Some ''Convergent'', Some ''Divergent'', Some ''Transform''}"

definition loadedBoundaries :: "state \<Rightarrow> boundary list" where
  "loadedBoundaries st = (case plates st of None \<Rightarrow> [] | Some fs \<Rightarrow> fs)"

section \<open>Sample data\<close>

definition initialState :: state where
  "initialState = \<lparr>earthquakes = [], plates = None, minMagnitude = 0, maxMagnitude = 10,
     minDepth = 0, maxDepth = 700, timeRange = ''all_day'', searchLocation = [],
     locationCoords = None, placeFilter = [], showExplanation = False, mapReady = False,
     pendingFetches = [''all_day'']\<rparr>"

definition quakeX2 :: event where
  "quakeX2 = \<lparr>eq_id = ''a'', mag = Num 2, place = Some ''X'', time_ms = 1,
              coordinates = [Num 0, Num 0, Num 10]\<rparr>"

definition quakeY6 :: event where
  "quakeY6 = \<lparr>eq_id = ''b'', mag = Num 6, place = Some ''Y'', time_ms = 2,
              coordinates = [Num 0, Num 0, Num 50]\<rparr>"

definition quakeX4 :: event where
  "quakeX4 = \<lparr>eq_id = ''c'', mag = Num 4, place = Some ''X'', time_ms = 3,
              coordinates = [Num 0, Num 0, Num 600]\<rparr>"

definition quakeNegative :: event where
  "quakeNegative = \<lparr>eq_id = ''d'', mag = Num (- 1), place = Some ''Z'', time_ms = 4,
                    coordinates = [Num 0, Num 0, Num 10]\<rparr>"

definition scenarioState :: state where
  "scenarioState = initialState\<lparr>earthquakes := [quakeX2, quakeY6, quakeX4]\<rparr>"

definition keywordState :: state where
  "keywordState = scenarioState\<lparr>placeFilter := ''y''\<rparr>"

definition crossedState :: state where
  "crossedState = scenarioState\<lparr>minMagnitude := 7, maxMagnitude := 3\<rparr>"

definition quakeNull :: event where
  "quakeNull = \<lparr>eq_id = ''e'', mag = Null, place = Some ''N'', time_ms = 5,
                coordinates = [Num 0, Num 0, Num 5]\<rparr>"

definition nullState :: state where
  "nullState = initialState\<lparr>earthquakes := [quakeNull, quakeX4]\<rparr>"




definition staleState :: state where
  "staleState =
     run [EarthquakesArrive 0 (Ok []), SetTimeRange ''all_week'', SetTimeRange ''all_hour'',
          EarthquakesArrive 1 (Ok [quakeX2])] initialState"

definition blankQueryState :: state where
  "blankQueryState = initialState\<lparr>searchLocation := '' ''\<rparr>"

definition rawBoundaries :: "(boundary \<times> real) list" where
  "rawBoundaries =
     [(\<lparr>segment = ''s1'', boundaryType = None\<rparr>, 0),
      (\<lparr>segment = ''s2'', boundaryType = None\<rparr>, 1 / 2),
      (\<lparr>segment = ''s3'', boundaryType = Some ''subduction''\<rparr>, 3 / 4)]"

definition sampleSession :: "action list" where
  "sampleSession =
     [PlatesArrive (Ok rawBoundaries), EarthquakesArrive 0 (Ok [quakeX2, quakeY6]),
      SetMinMagnitude 3, SetPlaceFilter ''y'', SetShowExplanation True,
      SetSearchLocation ''Lima'', SearchClick (Ok [(Finite (- 12), Finite (- 77))])]"

section \<open>Properties of the filter\<close>

lemmas sample_defs =
  initialState_def scenarioState_def quakeX2_def quakeY6_def quakeX4_def

lemmas filter_defs =
  filteredEarthquakes_def passesFilter_def depthOf_def placeOrEmpty_def
  js_ge_def js_le_def js_lt_def asciiToLowerCase_def asciiToLowerCaseChar_def

lemma startsWith_prefix: "startsWith s t = prefix t s"
  by (induction s t rule: startsWith.induct) auto

lemma str_includes_sublist: "str_includes s t = sublist t s"
  by (induction s) (auto simp: startsWith_prefix sublist_Cons_right)

lemma withinRange_nullAsZero: "withinRange lo hi v = liesWithin lo hi (nullAsZero v)"
  by (cases v) (simp_all add: withinRange_def liesWithin_def nullAsZero_def)

lemma js_range_within: "(js_ge v lo \<and> js_le v hi) = withinRange lo hi v"
  by (cases v) (auto simp: js_ge_def js_le_def withinRange_def)

lemma passesFilter_meetsCriteria:
  "passesFilter lc st eq = meetsCriteriaNullAsZero lc st eq"
proof -
  have "(js_ge (mag eq) (minMagnitude st) \<and> js_le (mag eq) (maxMagnitude st) \<and>
         js_ge (depthOf eq) (minDepth st) \<and> js_le (depthOf eq) (maxDepth st)) =
        (liesWithin (minMagnitude st) (maxMagnitude st) (nullAsZero (mag eq)) \<and>
         liesWithin (minDepth st) (maxDepth st) (nullAsZero (depthOf eq)))"
    using js_range_within [of "mag eq"] js_range_within [of "depthOf eq"]
    unfolding withinRange_nullAsZero by blast
  then show ?thesis
    unfolding passesFilter_def meetsCriteriaNullAsZero_def Let_def placeOrEmpty_def
      containsIgnoringCase_def str_includes_sublist
    by (cases "placeFilter st = []") auto
qed

lemma filteredEarthquakes_meets:
  "filteredEarthquakes lc st = filter (meetsCriteriaNullAsZero lc st) (earthquakes st)"
  unfolding filteredEarthquakes_def
  by (rule filter_cong) (simp_all add: passesFilter_meetsCriteria)

lemma meetsCriteria_without_null:
  "mag eq \<noteq> Null \<Longrightarrow> depthOf eq \<noteq> Null \<Longrightarrow>
   meetsCriteriaNullAsZero lc st eq = meetsCriteria lc st eq"
  by (cases "mag eq"; cases "depthOf eq")
    (simp_all add: meetsCriteriaNullAsZero_def meetsCriteria_def nullAsZero_def)

text \<open>
  C1, as stated: the filtered list holds exactly the events whose magnitude lies within
  the magnitude range, whose depth lies within the depth range and whose place contains
  the keyword. It holds more: under the widest criteria an event with a null magnitude
  is kept, and null is no number within 0 and 10. The comparisons of the filter read
  null as 0.
\<close>

theorem filter_null_counterexample:
  "quakeNull \<in> set (filteredEarthquakes asciiToLowerCase nullState) \<and>
   \<not> meetsCriteria asciiToLowerCase nullState quakeNull \<and>
   filteredEarthquakes asciiToLowerCase nullState \<noteq>
     filter (meetsCriteria asciiToLowerCase nullState) (earthquakes nullState)"
proof -
  have a: "filteredEarthquakes asciiToLowerCase nullState = [quakeNull, quakeX4]"
    by (simp add: filter_defs sample_defs nullState_def quakeNull_def)
  have b: "\<not> meetsCriteria asciiToLowerCase nullState quakeNull"
    by (simp add: meetsCriteria_def liesWithin_def quakeNull_def)
  have c: "filter (meetsCriteria asciiToLowerCase nullState) (earthquakes nullState) = [quakeX4]"
    by (simp add: meetsCriteria_def liesWithin_def depthOf_def sample_defs nullState_def
        quakeNull_def)
  show ?thesis
    unfolding a c using b by simp
qed

text \<open>
  C1, amended: the filtered list holds exactly the events of the collection whose
  magnitude, a null magnitude read as the number 0, lies within the magnitude range,
  whose depth, a null depth read as 0, lies within the depth range, and whose place
  (empty when absent) contains the keyword, both in lower case, or the keyword is
  empty. Every output event meets these criteria, every input event that meets them is
  in the output as often as in the input, and the output keeps the order of the input.
  On a collection without null magnitudes and depths these are the criteria as first
  stated. This holds whatever function \<open>toLowerCase\<close> is.
\<close>

theorem filter_sound_complete_ordered:
  "filteredEarthquakes lc st = filter (meetsCriteriaNullAsZero lc st) (earthquakes st) \<and>
   set (filteredEarthquakes lc st) =
     {eq \<in> set (earthquakes st). meetsCriteriaNullAsZero lc st eq} \<and>
   subseq (filteredEarthquakes lc st) (earthquakes st) \<and>
   (list_all (\<lambda>eq. mag eq \<noteq> Null \<and> depthOf eq \<noteq> Null) (earthquakes st) \<longrightarrow>
      filteredEarthquakes lc st = filter (meetsCriteria lc st) (earthquakes st))"
proof -
  have "list_all (\<lambda>eq. mag eq \<noteq> Null \<and> depthOf eq \<noteq> Null) (earthquakes st) \<Longrightarrow>
      filter (meetsCriteriaNullAsZero lc st) (earthquakes st) =
      filter (meetsCriteria lc st) (earthquakes st)"
    by (rule filter_cong) (simp_all add: list_all_iff meetsCriteria_without_null)
  then show ?thesis
    by (simp add: filteredEarthquakes_meets)
qed

theorem filter_sound_complete_ordered_witness:
  "filteredEarthquakes asciiToLowerCase keywordState = [quakeY6] \<and>
   filter (meetsCriteriaNullAsZero asciiToLowerCase keywordState) (earthquakes keywordState) =
     [quakeY6] \<and>
   list_all (\<lambda>eq. mag eq \<noteq> Null \<and> depthOf eq \<noteq> Null) (earthquakes keywordState) \<and>
   filter (meetsCriteria asciiToLowerCase keywordState) (earthquakes keywordState) = [quakeY6]"
proof -
  have a: "filteredEarthquakes asciiToLowerCase keywordState = [quakeY6]"
    by (simp add: filter_defs sample_defs keywordState_def)
  have n: "list_all (\<lambda>eq. mag eq \<noteq> Null \<and> depthOf eq \<noteq> Null) (earthquakes keywordState)"
    by (simp add: depthOf_def sample_defs keywordState_def)
  note t = filter_sound_complete_ordered [of asciiToLowerCase keywordState]
  from t have b: "filter (meetsCriteriaNullAsZero asciiToLowerCase keywordState)
      (earthquakes keywordState) = filteredEarthquakes asciiToLowerCase keywordState"
    by simp
  from t n have "filteredEarthquakes asciiToLowerCase keywordState =
      filter (meetsCriteria asciiToLowerCase keywordState) (earthquakes keywordState)"
    by blast
  then have c: "filter (meetsCriteria asciiToLowerCase keywordState)
      (earthquakes keywordState) = filteredEarthquakes asciiToLowerCase keywordState"
    by (rule sym)
  from a b c n show ?thesis by (simp only: simp_thms)
qed

text \<open>
  C5, as stated: the filter with the full ranges (magnitude 0 to 10, depth 0 to 700, no
  keyword) returns every collection unchanged. It does not: an event of magnitude -1
  is below the lower magnitude bound and is dropped.
\<close>

theorem full_range_identity_counterexample:
  "filteredEarthquakes asciiToLowerCase (fullRange (initialState\<lparr>earthquakes := [quakeNegative]\<rparr>))
     \<noteq> [quakeNegative]"
  by (simp add: filter_defs fullRange_def initialState_def quakeNegative_def)

text \<open>
  C5, amended: the filter with the full ranges returns the collection unchanged, in the
  same order, exactly when every event has a magnitude within 0 and 10 and a depth
  within 0 and 700 (null counting as 0); in general it returns the events that do.
\<close>

theorem full_range_identity_within_bounds:
  "filteredEarthquakes lc (fullRange st) =
     filter (\<lambda>eq. withinRange 0 10 (mag eq) \<and> withinRange 0 700 (depthOf eq))
       (earthquakes st) \<and>
   (filteredEarthquakes lc (fullRange st) = earthquakes st) =
     list_all (\<lambda>eq. withinRange 0 10 (mag eq) \<and> withinRange 0 700 (depthOf eq))
       (earthquakes st)"
proof -
  have "filteredEarthquakes lc (fullRange st) =
     filter (\<lambda>eq. withinRange 0 10 (mag eq) \<and> withinRange 0 700 (depthOf eq))
       (earthquakes st)"
    unfolding filteredEarthquakes_meets
    by (rule filter_cong)
      (simp_all add: meetsCriteriaNullAsZero_def withinRange_nullAsZero fullRange_def)
  then show ?thesis
    by (simp add: filter_id_conv list_all_iff)
qed

theorem full_range_identity_within_bounds_witness:
  "filteredEarthquakes asciiToLowerCase (fullRange scenarioState) = [quakeX2, quakeY6, quakeX4] \<and>
   list_all (\<lambda>eq. withinRange 0 10 (mag eq) \<and> withinRange 0 700 (depthOf eq))
     (earthquakes scenarioState)"
proof -
  have a: "filteredEarthquakes asciiToLowerCase (fullRange scenarioState) = earthquakes scenarioState"
    by (simp add: filter_defs fullRange_def sample_defs)
  have b: "earthquakes scenarioState = [quakeX2, quakeY6, quakeX4]"
    by (simp add: scenarioState_def)
  from a full_range_identity_within_bounds [where lc = asciiToLowerCase and st = scenarioState]
  have c: "list_all (\<lambda>eq. withinRange 0 10 (mag eq) \<and> withinRange 0 700 (depthOf eq))
     (earthquakes scenarioState)"
    by blast
  from a b c show ?thesis by (simp only: simp_thms)
qed

text \<open>
  C6. When the lower magnitude bound is above the upper one, the filtered list is empty
  for every collection: the two bounds are checked independently and never swapped.
\<close>

theorem crossed_magnitude_range_empty:
  "maxMagnitude st < minMagnitude st \<Longrightarrow> filteredEarthquakes lc st = []"
  by (auto simp: filteredEarthquakes_def passesFilter_def Let_def js_ge_def js_le_def
      filter_empty_conv split: option.splits)

theorem crossed_magnitude_range_empty_witness:
  "maxMagnitude crossedState < minMagnitude crossedState \<and>
   earthquakes crossedState = [quakeX2, quakeY6, quakeX4] \<and>
   filteredEarthquakes asciiToLowerCase crossedState = []"
proof -
  have h: "maxMagnitude crossedState < minMagnitude crossedState"
    by (simp add: crossedState_def)
  show ?thesis
    using h crossed_magnitude_range_empty [where lc = asciiToLowerCase, OF h] by (simp add: crossedState_def sample_defs)
qed

section \<open>Properties of the report\<close>

lemmas double_defs =
  roundToDouble_def ulp_def exponentOf_def pow2_def roundHalfEven_def js_times_def
  bitLength.simps

lemma passesFilter_numeric: "passesFilter lc st eq \<Longrightarrow> \<exists>x. toNumber (mag eq) = Some x"
  by (cases "mag eq") (simp_all add: passesFilter_def Let_def js_ge_def)

lemma filtered_numeric:
  "eq \<in> set (filteredEarthquakes lc st) \<Longrightarrow> \<exists>x. toNumber (mag eq) = Some x"
  using passesFilter_numeric [of lc st eq] by (simp add: filteredEarthquakes_def)

lemma bands_partition:
  "(\<And>e. e \<in> set fe \<Longrightarrow> \<exists>x. toNumber (mag e) = Some x) \<Longrightarrow>
   length (filter (\<lambda>m. js_ge m 5) (map mag fe)) +
   length (filter (\<lambda>m. js_ge m 3 \<and> js_lt m 5) (map mag fe)) +
   length (filter (\<lambda>m. js_lt m 3) (map mag fe)) = length fe"
proof (induction fe)
  case Nil
  then show ?case by simp
next
  case (Cons e fe)
  from Cons.prems obtain x where x: "toNumber (mag e) = Some x" by auto
  have ih: "length (filter (\<lambda>m. js_ge m 5) (map mag fe)) +
   length (filter (\<lambda>m. js_ge m 3 \<and> js_lt m 5) (map mag fe)) +
   length (filter (\<lambda>m. js_lt m 3) (map mag fe)) = length fe"
    using Cons by simp
  show ?case using ih x by (simp add: js_ge_def js_lt_def)
qed

lemma bands_exclusive:
  "\<not> (js_ge m 5 \<and> (js_ge m 3 \<and> js_lt m 5)) \<and> \<not> (js_ge m 5 \<and> js_lt m 3) \<and>
   \<not> ((js_ge m 3 \<and> js_lt m 5) \<and> js_lt m 3)"
  by (cases "toNumber m") (simp_all add: js_ge_def js_lt_def)

text \<open>
  C2. For a non-empty filtered list the report exists, and its three band counts
  (strong: magnitude at least 5; moderate: at least 3 and below 5; minor: below 3) add
  up to the total, the number of filtered events. No magnitude is in two bands.
\<close>

theorem band_counts_partition:
  assumes "filteredEarthquakes lc st \<noteq> []"
  shows "\<exists>r. stats lc st = Some r \<and>
     total r = length (filteredEarthquakes lc st) \<and>
     highMagCount r = length (filter (\<lambda>e. js_ge (mag e) 5) (filteredEarthquakes lc st)) \<and>
     medMagCount r =
       length (filter (\<lambda>e. js_ge (mag e) 3 \<and> js_lt (mag e) 5) (filteredEarthquakes lc st)) \<and>
     lowMagCount r = length (filter (\<lambda>e. js_lt (mag e) 3) (filteredEarthquakes lc st)) \<and>
     highMagCount r + medMagCount r + lowMagCount r = total r \<and>
     (\<forall>m. \<not> (js_ge m 5 \<and> (js_ge m 3 \<and> js_lt m 5)) \<and> \<not> (js_ge m 5 \<and> js_lt m 3) \<and>
          \<not> ((js_ge m 3 \<and> js_lt m 5) \<and> js_lt m 3))"
proof -
  let ?fe = "filteredEarthquakes lc st"
  obtain r where r: "stats lc st = Some r"
    using assms by (simp add: stats_def summarize_def Let_def)
  have t: "total r = length ?fe"
    and h: "highMagCount r = length (filter (\<lambda>m. js_ge m 5) (map mag ?fe))"
    and m: "medMagCount r = length (filter (\<lambda>m. js_ge m 3 \<and> js_lt m 5) (map mag ?fe))"
    and l: "lowMagCount r = length (filter (\<lambda>m. js_lt m 3) (map mag ?fe))"
    using r assms by (auto simp: stats_def summarize_def Let_def)
  have s: "highMagCount r + medMagCount r + lowMagCount r = total r"
    unfolding t h m l by (rule bands_partition) (rule filtered_numeric)
  have fm: "\<And>P. length (filter P (map mag ?fe)) = length (filter (\<lambda>e. P (mag e)) ?fe)"
    by (simp add: filter_map comp_def)
  show ?thesis
    using r t s h m l bands_exclusive unfolding fm by blast
qed

theorem band_counts_partition_witness:
  "filteredEarthquakes asciiToLowerCase scenarioState \<noteq> [] \<and>
   (\<exists>r. stats asciiToLowerCase scenarioState = Some r \<and> total r = 3 \<and> highMagCount r = 1 \<and>
        medMagCount r = 1 \<and> lowMagCount r = 1 \<and>
        highMagCount r + medMagCount r + lowMagCount r = total r)"
proof -
  have fe: "filteredEarthquakes asciiToLowerCase scenarioState = [quakeX2, quakeY6, quakeX4]"
    by (simp add: filter_defs sample_defs)
  then have ne: "filteredEarthquakes asciiToLowerCase scenarioState \<noteq> []" by simp
  from band_counts_partition [OF ne] obtain r where
    r: "stats asciiToLowerCase scenarioState = Some r"
    and t: "total r = length (filteredEarthquakes asciiToLowerCase scenarioState)"
    and h: "highMagCount r = length (filter (\<lambda>e. js_ge (mag e) 5) (filteredEarthquakes asciiToLowerCase scenarioState))"
    and m: "medMagCount r =
       length (filter (\<lambda>e. js_ge (mag e) 3 \<and> js_lt (mag e) 5) (filteredEarthquakes asciiToLowerCase scenarioState))"
    and l: "lowMagCount r = length (filter (\<lambda>e. js_lt (mag e) 3) (filteredEarthquakes asciiToLowerCase scenarioState))"
    and s: "highMagCount r + medMagCount r + lowMagCount r = total r"
    by blast
  have "total r = 3" "highMagCount r = 1" "medMagCount r = 1" "lowMagCount r = 1"
    unfolding t h m l fe by (simp_all add: js_ge_def js_lt_def sample_defs)
  with r s ne show ?thesis by blast
qed

text \<open>
  C4. For the empty filtered list the statistics are the marker \<open>null\<close>, not a report,
  and the panel, which tests the marker, shows the no-matches message in place of a
  report; a report is shown exactly when the filtered list is not empty.
\<close>

theorem empty_gives_marker:
  "(filteredEarthquakes lc st = [] \<longrightarrow>
      stats lc st = None \<and>
      ExplanationPanel lc st = Message ''No earthquakes match the current filters.'') \<and>
   (filteredEarthquakes lc st \<noteq> [] \<longrightarrow>
      (\<exists>r. stats lc st = Some r \<and> ExplanationPanel lc st = ReportView r))"
  by (simp add: ExplanationPanel_def stats_def summarize_def Let_def)

theorem empty_gives_marker_witness:
  "filteredEarthquakes asciiToLowerCase crossedState = [] \<and> stats asciiToLowerCase crossedState = None \<and>
   ExplanationPanel asciiToLowerCase crossedState = Message ''No earthquakes match the current filters.'' \<and>
   filteredEarthquakes asciiToLowerCase scenarioState \<noteq> [] \<and>
   (\<exists>r. stats asciiToLowerCase scenarioState = Some r \<and> ExplanationPanel asciiToLowerCase scenarioState = ReportView r)"
proof -
  have a: "filteredEarthquakes asciiToLowerCase crossedState = []"
    by (simp add: filter_defs sample_defs crossedState_def)
  have b: "filteredEarthquakes asciiToLowerCase scenarioState \<noteq> []"
    by (simp add: filter_defs sample_defs)
  show ?thesis
    using a b empty_gives_marker [of asciiToLowerCase crossedState]
      empty_gives_marker [of asciiToLowerCase scenarioState]
    by blast
qed

subsection \<open>Null magnitudes\<close>

lemma filtered_not_absent:
  "e \<in> set (filteredEarthquakes lc st) \<Longrightarrow> mag e \<noteq> Undefined"
  using filtered_numeric [of e lc st] by auto

lemma toNumber_magnitudeValue:
  "mag e \<noteq> Undefined \<Longrightarrow> toNumber (mag e) = Some (magnitudeValue e)"
  by (cases "mag e") (simp_all add: magnitudeValue_def)

lemma count_by_value:
  assumes "\<And>e. e \<in> set fe \<Longrightarrow> mag e \<noteq> Undefined"
    and "\<And>e. mag e \<noteq> Undefined \<Longrightarrow> P (mag e) = Q (magnitudeValue e)"
  shows "length (filter P (map mag fe)) = length (filter (\<lambda>e. Q (magnitudeValue e)) fe)"
proof -
  have "filter (\<lambda>e. P (mag e)) fe = filter (\<lambda>e. Q (magnitudeValue e)) fe"
    by (rule filter_cong) (simp_all add: assms)
  then show ?thesis
    by (simp add: filter_map comp_def)
qed

lemma sum_by_value:
  "(\<And>e. e \<in> set fe \<Longrightarrow> mag e \<noteq> Undefined) \<Longrightarrow>
   foldl js_add (Some a) (map mag fe) =
   Some (foldl (\<lambda>a v. roundToDouble (a + v)) a (map magnitudeValue fe))"
proof (induction fe arbitrary: a)
  case Nil
  then show ?case by simp
next
  case (Cons e fe)
  have "js_add (Some a) (mag e) = Some (roundToDouble (a + magnitudeValue e))"
    using Cons.prems [of e] by (simp add: js_add_def toNumber_magnitudeValue)
  with Cons show ?case by simp
qed

lemma max_by_value:
  "fe \<noteq> [] \<Longrightarrow> (\<And>e. e \<in> set fe \<Longrightarrow> mag e \<noteq> Undefined) \<Longrightarrow>
   math_max (map mag fe) = Finite (Max (magnitudeValue ` set fe))"
proof (induction fe rule: list_nonempty_induct)
  case (single e)
  then show ?case by (simp add: toNumber_magnitudeValue)
next
  case (cons e fe)
  have "math_max (map mag fe) = Finite (Max (magnitudeValue ` set fe))"
    using cons by simp
  moreover have "toNumber (mag e) = Some (magnitudeValue e)"
    using cons.prems [of e] by (simp add: toNumber_magnitudeValue)
  moreover have "Max (magnitudeValue ` set (e # fe)) =
      max (magnitudeValue e) (Max (magnitudeValue ` set fe))"
    using cons.hyps by simp
  ultimately show ?case by simp
qed

lemma min_by_value:
  "fe \<noteq> [] \<Longrightarrow> (\<And>e. e \<in> set fe \<Longrightarrow> mag e \<noteq> Undefined) \<Longrightarrow>
   math_min (map mag fe) = Finite (Min (magnitudeValue ` set fe))"
proof (induction fe rule: list_nonempty_induct)
  case (single e)
  then show ?case by (simp add: toNumber_magnitudeValue)
next
  case (cons e fe)
  have "math_min (map mag fe) = Finite (Min (magnitudeValue ` set fe))"
    using cons by simp
  moreover have "toNumber (mag e) = Some (magnitudeValue e)"
    using cons.prems [of e] by (simp add: toNumber_magnitudeValue)
  moreover have "Min (magnitudeValue ` set (e # fe)) =
      min (magnitudeValue e) (Min (magnitudeValue ` set fe))"
    using cons.hyps by simp
  ultimately show ?case by simp
qed

lemma null_in_minor_band:
  "length (filter (\<lambda>e. mag e = Null) fe) \<le> length (filter (\<lambda>e. magnitudeValue e < 3) fe)"
  by (induction fe) (auto simp: magnitudeValue_def)

text \<open>
  C8, as stated: the band counts, the average, the minimum and the maximum are computed
  over the events whose magnitude is not null. They are not: with a null magnitude and
  a magnitude 4 in the filtered list, the minor band counts 1, the minimum is 0 and the
  average is 2, where the magnitudes that are not null give 0, 4 and 4.
\<close>

theorem null_excluded_counterexample:
  "map_option lowMagCount (stats asciiToLowerCase nullState) = Some 1 \<and>
   length (filter (\<lambda>m. js_lt m 3)
     (nonNullMagnitudes (filteredEarthquakes asciiToLowerCase nullState))) = 0 \<and>
   map_option minMag (stats asciiToLowerCase nullState) = Some (Finite 0) \<and>
   math_min (nonNullMagnitudes (filteredEarthquakes asciiToLowerCase nullState)) = Finite 4 \<and>
   map_option avgMag (stats asciiToLowerCase nullState) = Some (Some 2) \<and>
   map_option
     (\<lambda>s. roundToDouble
        (s / real (length (nonNullMagnitudes (filteredEarthquakes asciiToLowerCase nullState)))))
     (foldl js_add (Some 0) (nonNullMagnitudes (filteredEarthquakes asciiToLowerCase nullState))) =
     Some 4"
proof -
  have fe: "filteredEarthquakes asciiToLowerCase nullState = [quakeNull, quakeX4]"
    by (simp add: filter_defs sample_defs nullState_def quakeNull_def)
  show ?thesis
    unfolding stats_def fe
    by (simp add: summarize_def nonNullMagnitudes_def js_lt_def js_ge_def js_add_def
        quakeNull_def quakeX4_def double_defs Let_def)
qed

text \<open>
  C8, amended: an event whose magnitude is null is not excluded from the numeric
  aggregates; its magnitude takes part as the number 0. For a non-empty filtered list,
  with every null magnitude read as 0: the total counts every event; the three band
  counts are those of these numbers, so every null magnitude is counted in the minor
  band; the average is the sum of these numbers, from left to right in double
  arithmetic, divided by the total; the maximum and the minimum are the greatest and
  the least of these numbers.
\<close>

theorem null_magnitude_counts_as_zero:
  assumes "filteredEarthquakes lc st \<noteq> []"
  shows "\<exists>r. stats lc st = Some r \<and>
     list_all (\<lambda>e. mag e \<noteq> Undefined) (filteredEarthquakes lc st) \<and>
     total r = length (filteredEarthquakes lc st) \<and>
     highMagCount r = length (filter (\<lambda>e. 5 \<le> magnitudeValue e) (filteredEarthquakes lc st)) \<and>
     medMagCount r =
       length (filter (\<lambda>e. 3 \<le> magnitudeValue e \<and> magnitudeValue e < 5)
         (filteredEarthquakes lc st)) \<and>
     lowMagCount r = length (filter (\<lambda>e. magnitudeValue e < 3) (filteredEarthquakes lc st)) \<and>
     length (filter (\<lambda>e. mag e = Null) (filteredEarthquakes lc st)) \<le> lowMagCount r \<and>
     avgMag r =
       Some (roundToDouble (doubleSum (map magnitudeValue (filteredEarthquakes lc st)) /
         real (length (filteredEarthquakes lc st)))) \<and>
     maxMag r = Finite (Max (magnitudeValue ` set (filteredEarthquakes lc st))) \<and>
     minMag r = Finite (Min (magnitudeValue ` set (filteredEarthquakes lc st)))"
proof -
  let ?fe = "filteredEarthquakes lc st"
  have num: "\<And>e. e \<in> set ?fe \<Longrightarrow> mag e \<noteq> Undefined"
    by (rule filtered_not_absent)
  obtain r where r: "stats lc st = Some r"
    using assms by (simp add: stats_def summarize_def Let_def)
  have t: "total r = length ?fe"
    and h: "highMagCount r = length (filter (\<lambda>m. js_ge m 5) (map mag ?fe))"
    and m: "medMagCount r = length (filter (\<lambda>m. js_ge m 3 \<and> js_lt m 5) (map mag ?fe))"
    and l: "lowMagCount r = length (filter (\<lambda>m. js_lt m 3) (map mag ?fe))"
    and a: "avgMag r = map_option (\<lambda>s. roundToDouble (s / real (length ?fe)))
              (foldl js_add (Some 0) (map mag ?fe))"
    and mx: "maxMag r = math_max (map mag ?fe)"
    and mn: "minMag r = math_min (map mag ?fe)"
    using r assms by (auto simp: stats_def summarize_def Let_def)
  have h': "highMagCount r = length (filter (\<lambda>e. 5 \<le> magnitudeValue e) ?fe)"
    unfolding h by (rule count_by_value) (simp_all add: num js_ge_def toNumber_magnitudeValue)
  have m': "medMagCount r =
      length (filter (\<lambda>e. 3 \<le> magnitudeValue e \<and> magnitudeValue e < 5) ?fe)"
    unfolding m
    by (rule count_by_value) (simp_all add: num js_ge_def js_lt_def toNumber_magnitudeValue)
  have l': "lowMagCount r = length (filter (\<lambda>e. magnitudeValue e < 3) ?fe)"
    unfolding l by (rule count_by_value) (simp_all add: num js_lt_def toNumber_magnitudeValue)
  have n: "length (filter (\<lambda>e. mag e = Null) ?fe) \<le> lowMagCount r"
    unfolding l' by (rule null_in_minor_band)
  have a': "avgMag r =
      Some (roundToDouble (doubleSum (map magnitudeValue ?fe) / real (length ?fe)))"
    unfolding a doubleSum_def by (simp add: sum_by_value [OF num])
  have mx': "maxMag r = Finite (Max (magnitudeValue ` set ?fe))"
    unfolding mx using assms num by (rule max_by_value)
  have mn': "minMag r = Finite (Min (magnitudeValue ` set ?fe))"
    unfolding mn using assms num by (rule min_by_value)
  have u: "list_all (\<lambda>e. mag e \<noteq> Undefined) ?fe"
    using num by (simp add: list_all_iff)
  from r u t h' m' l' n a' mx' mn' show ?thesis by blast
qed

theorem null_magnitude_counts_as_zero_witness:
  "filteredEarthquakes asciiToLowerCase nullState = [quakeNull, quakeX4] \<and>
   mag quakeNull = Null \<and>
   (\<exists>r. stats asciiToLowerCase nullState = Some r \<and> total r = 2 \<and> highMagCount r = 0 \<and>
        medMagCount r = 1 \<and> lowMagCount r = 1 \<and> avgMag r = Some 2 \<and>
        maxMag r = Finite 4 \<and> minMag r = Finite 0)"
proof -
  have fe: "filteredEarthquakes asciiToLowerCase nullState = [quakeNull, quakeX4]"
    by (simp add: filter_defs sample_defs nullState_def quakeNull_def)
  then have ne: "filteredEarthquakes asciiToLowerCase nullState \<noteq> []"
    by simp
  have v: "magnitudeValue quakeNull = 0" "magnitudeValue quakeX4 = 4"
    by (simp_all add: magnitudeValue_def quakeNull_def quakeX4_def)
  have s: "roundToDouble (doubleSum [0, 4] / 2) = 2"
    by (simp add: doubleSum_def double_defs Let_def)
  from null_magnitude_counts_as_zero [OF ne] obtain r where
    r: "stats asciiToLowerCase nullState = Some r"
    and t: "total r = length (filteredEarthquakes asciiToLowerCase nullState)"
    and h: "highMagCount r =
       length (filter (\<lambda>e. 5 \<le> magnitudeValue e) (filteredEarthquakes asciiToLowerCase nullState))"
    and m: "medMagCount r =
       length (filter (\<lambda>e. 3 \<le> magnitudeValue e \<and> magnitudeValue e < 5)
         (filteredEarthquakes asciiToLowerCase nullState))"
    and l: "lowMagCount r =
       length (filter (\<lambda>e. magnitudeValue e < 3) (filteredEarthquakes asciiToLowerCase nullState))"
    and a: "avgMag r =
       Some (roundToDouble
         (doubleSum (map magnitudeValue (filteredEarthquakes asciiToLowerCase nullState)) /
          real (length (filteredEarthquakes asciiToLowerCase nullState))))"
    and mx: "maxMag r =
       Finite (Max (magnitudeValue ` set (filteredEarthquakes asciiToLowerCase nullState)))"
    and mn: "minMag r =
       Finite (Min (magnitudeValue ` set (filteredEarthquakes asciiToLowerCase nullState)))"
    by blast
  have "total r = 2" "highMagCount r = 0" "medMagCount r = 1" "lowMagCount r = 1"
    "avgMag r = Some 2" "maxMag r = Finite 4" "minMag r = Finite 0"
    unfolding t h m l a mx mn fe by (simp_all add: v s)
  with r fe show ?thesis by (simp add: quakeNull_def)
qed

section \<open>Properties of loading and searching\<close>

lemmas session_defs =
  run_def selectTimeRange_def earthquakesArrive_def fetchPlates_def handleSearch_def

text \<open>
  C7, as stated: a completing response is applied only if it belongs to the time range
  selected when it completes. It is applied whatever is selected: after the user chose
  the week and then the hour, and the response for the hour has arrived, the response
  for the week arrives and replaces the collection while the hour is still selected.
\<close>

theorem stale_response_counterexample:
  "pendingFetches staleState ! 0 = ''all_week'' \<and> timeRange staleState = ''all_hour'' \<and>
   earthquakes staleState = [quakeX2] \<and>
   earthquakes (step (EarthquakesArrive 0 (Ok [quakeY6])) staleState) = [quakeY6] \<and>
   earthquakes (step (EarthquakesArrive 0 (Ok [quakeY6])) staleState) \<noteq> earthquakes staleState"
  by (simp add: session_defs staleState_def initialState_def quakeX2_def quakeY6_def)

text \<open>
  C7, amended: when a response of the event feed completes with a body, it replaces
  the current collection whether or not it belongs to the time range selected at that
  moment, and the selection is left as it is; a response that fails leaves the
  collection as it is. The collection on display is that of the response that
  completed last.
\<close>

theorem response_applied_unconditionally:
  "i < length (pendingFetches st) \<Longrightarrow>
   earthquakes (earthquakesArrive i (Ok features) st) = features \<and>
   timeRange (earthquakesArrive i (Ok features) st) = timeRange st \<and>
   earthquakes (earthquakesArrive i Failed st) = earthquakes st"
  by (simp add: earthquakesArrive_def)

theorem response_applied_unconditionally_witness:
  "0 < length (pendingFetches staleState) \<and>
   earthquakes (earthquakesArrive 0 (Ok [quakeY6]) staleState) = [quakeY6] \<and>
   timeRange (earthquakesArrive 0 (Ok [quakeY6]) staleState) = ''all_hour'' \<and>
   earthquakes (earthquakesArrive 0 Failed staleState) = [quakeX2]"
proof -
  have h: "0 < length (pendingFetches staleState)"
    by (simp add: session_defs staleState_def initialState_def)
  have t: "timeRange staleState = ''all_hour''"
    by (simp add: session_defs staleState_def initialState_def)
  have e: "earthquakes staleState = [quakeX2]"
    by (simp add: session_defs staleState_def initialState_def)
  show ?thesis
    using h t e response_applied_unconditionally [OF h, of "[quakeY6]"] by simp
qed

text \<open>
  C9, as stated: a query that is empty or of white space only makes no request and
  leaves the coordinates as they are. A query of one space is sent to the geocoder, and
  the first candidate of the answer becomes the coordinates.
\<close>

theorem blank_query_counterexample:
  "whitespaceOnly (searchLocation blankQueryState) \<and>
   snd (handleSearch (Ok [(Finite 1, Finite 2)]) blankQueryState) = [GeocodeRequest '' ''] \<and>
   locationCoords blankQueryState = None \<and>
   locationCoords (fst (handleSearch (Ok [(Finite 1, Finite 2)]) blankQueryState)) =
     Some (Finite 1, Finite 2) \<and>
   handleSearch (Ok [(Finite 1, Finite 2)]) blankQueryState \<noteq> (blankQueryState, [])"
  by (simp add: handleSearch_def whitespaceOnly_def blankQueryState_def initialState_def)

text \<open>
  C9, amended: for the empty query the place resolution does nothing: no request, no
  notice, the state (the coordinates among it) unchanged. Every other query, one of
  white space only too, is sent to the geocoder as it is.
\<close>

theorem empty_query_noop:
  "(searchLocation st = [] \<longrightarrow> handleSearch res st = (st, [])) \<and>
   (searchLocation st \<noteq> [] \<longrightarrow>
      (\<exists>es. snd (handleSearch res st) = GeocodeRequest (searchLocation st) # es))"
  by (simp add: handleSearch_def split: response.split list.split)

theorem empty_query_noop_witness:
  "searchLocation initialState = [] \<and>
   handleSearch (Ok [(Finite 1, Finite 2)]) initialState = (initialState, []) \<and>
   searchLocation blankQueryState \<noteq> [] \<and>
   (\<exists>es. snd (handleSearch Failed blankQueryState) = GeocodeRequest '' '' # es)"
proof -
  have a: "searchLocation initialState = []"
    by (simp add: initialState_def)
  have b: "searchLocation blankQueryState = '' ''"
    by (simp add: blankQueryState_def)
  show ?thesis
    using a b empty_query_noop [of initialState "Ok [(Finite 1, Finite 2)]"]
      empty_query_noop [of blankQueryState Failed]
    by simp
qed

subsection \<open>Double rounding\<close>

text \<open>\<open>exponentOf\<close> is the binary exponent.\<close>

lemma bitLength_bounds:
  "0 < n \<Longrightarrow> 2 ^ (bitLength n - 1) \<le> n \<and> n < 2 ^ bitLength n"
proof (induction n rule: bitLength.induct)
  case (1 n)
  show ?case
  proof (cases "n div 2 \<le> 0")
    case True
    with "1.prems" have "n = 1" by linarith
    then show ?thesis by (simp add: bitLength.simps)
  next
    case False
    then have pos: "0 < n div 2" by simp
    with "1.IH" "1.prems" have ih:
      "2 ^ (bitLength (n div 2) - 1) \<le> n div 2" "n div 2 < 2 ^ bitLength (n div 2)"
      by simp_all
    have b: "bitLength n = Suc (bitLength (n div 2))"
      using "1.prems" by (simp add: bitLength.simps [of n])
    have p: "0 < bitLength (n div 2)"
      using pos by (simp add: bitLength.simps [of "n div 2"])
    then have "(2 :: int) ^ (bitLength n - 1) = 2 * 2 ^ (bitLength (n div 2) - 1)"
      unfolding b by (cases "bitLength (n div 2)") simp_all
    also have "\<dots> \<le> 2 * (n div 2)" using ih(1) by simp
    also have "\<dots> \<le> n" by simp
    finally have lo: "2 ^ (bitLength n - 1) \<le> n" .
    have "n < 2 * (n div 2) + 2" by linarith
    also have "\<dots> \<le> 2 * 2 ^ bitLength (n div 2)" using ih(2) by simp
    finally have "n < 2 ^ bitLength n" unfolding b by simp
    with lo show ?thesis by simp
  qed
qed

lemma exponentOf_bounds:
  assumes "0 < x"
  shows "pow2 (exponentOf x) \<le> x \<and> x < pow2 (exponentOf x + 1)"
proof (cases "1 \<le> x")
  case True
  define n where "n = \<lfloor>x\<rfloor>"
  have n: "0 < n" "of_int n \<le> x" "x < of_int n + 1"
    using True unfolding n_def by simp_all
  from bitLength_bounds [OF n(1)] have
    lo: "2 ^ (bitLength n - 1) \<le> n" and hi: "n < 2 ^ bitLength n"
    by simp_all
  have b: "0 < bitLength n" using n(1) by (simp add: bitLength.simps [of n])
  have e: "exponentOf x = int (bitLength n) - 1"
    using True by (simp add: exponentOf_def n_def)
  have "pow2 (exponentOf x) = 2 ^ (bitLength n - 1)"
    using b by (simp add: e pow2_def nat_diff_distrib')
  also have "\<dots> = of_int (2 ^ (bitLength n - 1))" by simp
  also have "\<dots> \<le> of_int n" using lo by (simp only: of_int_le_iff)
  finally have l: "pow2 (exponentOf x) \<le> x" using n(2) by simp
  have "n + 1 \<le> 2 ^ bitLength n" using hi by simp
  then have "(of_int (n + 1) :: real) \<le> of_int (2 ^ bitLength n)"
    by (simp only: of_int_le_iff)
  then have "x < 2 ^ bitLength n" using n(3) by simp
  moreover have "pow2 (exponentOf x + 1) = 2 ^ bitLength n"
    by (simp add: e pow2_def)
  ultimately show ?thesis using l by simp
next
  case False
  define n where "n = \<lceil>1 / x\<rceil> - 1"
  from False assms have y: "1 < 1 / x" by simp
  then have c: "2 \<le> \<lceil>1 / x\<rceil>" by linarith
  have r: "(of_int n :: real) = of_int \<lceil>1 / x\<rceil> - 1"
    unfolding n_def by simp
  have "0 < n" using c unfolding n_def by linarith
  moreover have "of_int n < 1 / x" unfolding r by linarith
  moreover have "1 / x \<le> of_int n + 1" unfolding r by simp
  ultimately have n: "0 < n" "of_int n < 1 / x" "1 / x \<le> of_int n + 1" by simp_all
  from bitLength_bounds [OF n(1)] have
    lo: "2 ^ (bitLength n - 1) \<le> n" and hi: "n < 2 ^ bitLength n"
    by simp_all
  have b: "0 < bitLength n" using n(1) by (simp add: bitLength.simps [of n])
  have e: "exponentOf x = - int (bitLength n)"
    using False by (simp add: exponentOf_def n_def)
  have "n + 1 \<le> 2 ^ bitLength n" using hi by simp
  then have "(of_int (n + 1) :: real) \<le> of_int (2 ^ bitLength n)"
    by (simp only: of_int_le_iff)
  with n(3) have "1 / x \<le> 2 ^ bitLength n" by simp
  then have "1 \<le> 2 ^ bitLength n * x" using assms by (simp add: divide_le_eq)
  then have "1 / 2 ^ bitLength n \<le> x" by (simp add: divide_le_eq mult.commute)
  then have l: "pow2 (exponentOf x) \<le> x"
    using b by (simp add: e pow2_def)
  have "(of_int (2 ^ (bitLength n - 1)) :: real) \<le> of_int n"
    using lo by (simp only: of_int_le_iff)
  from this n(2) have "(of_int (2 ^ (bitLength n - 1)) :: real) < 1 / x"
    by (rule le_less_trans)
  then have "2 ^ (bitLength n - 1) < 1 / x" by simp
  then have "2 ^ (bitLength n - 1) * x < 1" using assms by (simp add: less_divide_eq)
  then have "x < 1 / 2 ^ (bitLength n - 1)" by (simp add: less_divide_eq mult.commute)
  moreover have "pow2 (exponentOf x + 1) = 1 / 2 ^ (bitLength n - 1)"
    using b by (cases "bitLength n") (simp_all add: e pow2_def)
  ultimately show ?thesis using l by simp
qed

lemma roundHalfEven_le: "y < of_int n + 1 / 2 \<Longrightarrow> roundHalfEven y \<le> n"
proof -
  assume a: "y < of_int n + 1 / 2"
  have "of_int \<lfloor>y\<rfloor> \<le> y" by simp
  with a have "(of_int \<lfloor>y\<rfloor> :: real) < of_int n + 1" by linarith
  then have "\<lfloor>y\<rfloor> < n + 1"
    by (metis of_int_1 of_int_add of_int_less_iff)
  then have f: "\<lfloor>y\<rfloor> \<le> n" by simp
  show ?thesis
  proof (cases "\<lfloor>y\<rfloor> = n")
    case True
    with a have "y - of_int \<lfloor>y\<rfloor> < 1 / 2" by simp
    with True show ?thesis by (simp add: roundHalfEven_def Let_def)
  next
    case False
    with f have "\<lfloor>y\<rfloor> + 1 \<le> n" by simp
    then show ?thesis by (simp add: roundHalfEven_def Let_def)
  qed
qed

lemma roundHalfEven_nonneg: "0 \<le> y \<Longrightarrow> 0 \<le> roundHalfEven y"
proof -
  assume "0 \<le> y"
  then have "0 \<le> \<lfloor>y\<rfloor>" by simp
  then show ?thesis by (simp add: roundHalfEven_def Let_def)
qed

lemma pow2_pos: "0 < pow2 k"
  by (simp add: pow2_def)

lemma ulp_pos: "0 < ulp x"
  by (simp add: ulp_def pow2_pos)

lemma roundToDouble_nonneg: "0 \<le> x \<Longrightarrow> 0 \<le> roundToDouble x"
proof -
  assume x: "0 \<le> x"
  have "0 \<le> x / ulp x" using x ulp_pos [of x] by simp
  then have "0 \<le> roundHalfEven (x / ulp x)" by (rule roundHalfEven_nonneg)
  then have "0 \<le> (of_int (roundHalfEven (x / ulp x)) :: real) * ulp x"
    using ulp_pos [of x] by simp
  with x show ?thesis by (simp add: roundToDouble_def)
qed

lemma roundToDouble_below_two:
  assumes "0 < x" and "x < 2"
  shows "roundToDouble x \<le> 2"
proof -
  have e: "exponentOf x \<le> 0"
  proof (cases "1 \<le> x")
    case True
    with assms have "\<lfloor>x\<rfloor> = 1" by linarith
    then show ?thesis using True by (simp add: exponentOf_def bitLength.simps)
  next
    case False
    then show ?thesis by (simp add: exponentOf_def)
  qed
  define j where "j = nat (52 - max (exponentOf x) (- 1022))"
  have u: "ulp x = 1 / 2 ^ j"
    using e by (simp add: ulp_def pow2_def j_def)
  have "x / ulp x = x * 2 ^ j" by (simp add: u)
  also have "\<dots> < 2 * 2 ^ j" using assms by simp
  also have "\<dots> = of_int (2 ^ Suc j)" by simp
  finally have "x / ulp x < of_int (2 ^ Suc j) + 1 / 2" by linarith
  then have "roundHalfEven (x / ulp x) \<le> 2 ^ Suc j" by (rule roundHalfEven_le)
  then have "(of_int (roundHalfEven (x / ulp x)) :: real) \<le> of_int (2 ^ Suc j)"
    by (simp only: of_int_le_iff)
  then have "(of_int (roundHalfEven (x / ulp x)) :: real) * (1 / 2 ^ j) \<le> of_int (2 ^ Suc j) * (1 / 2 ^ j)"
    by (rule mult_right_mono) simp
  then have "(of_int (roundHalfEven (x / ulp x)) :: real) * ulp x \<le> 2"
    by (simp add: u)
  with assms show ?thesis by (simp add: roundToDouble_def)
qed

lemma roundToDouble_below_three:
  assumes "2 \<le> x" and "x \<le> 3 - 3 / 2 ^ 53"
  shows "roundToDouble x < 3"
proof -
  have "(0 :: real) < 3 / 2 ^ 53" by simp
  with assms(2) have "x < 3" by linarith
  with assms have fl: "\<lfloor>x\<rfloor> = 2" by linarith
  have e: "exponentOf x = 1"
    using assms fl by (simp add: exponentOf_def bitLength.simps)
  have u: "ulp x = 1 / 2 ^ 51"
    by (simp add: ulp_def e pow2_def)
  have "x / ulp x = x * 2 ^ 51" by (simp add: u)
  also have "\<dots> \<le> (3 - 3 / 2 ^ 53) * 2 ^ 51"
    using assms(2) by (rule mult_right_mono) simp
  also have "\<dots> = of_int (3 * 2 ^ 51 - 1) + 1 / 4" by simp
  finally have "x / ulp x < of_int (3 * 2 ^ 51 - 1) + 1 / 2" by linarith
  then have "roundHalfEven (x / ulp x) \<le> 3 * 2 ^ 51 - 1" by (rule roundHalfEven_le)
  then have "(of_int (roundHalfEven (x / ulp x)) :: real) \<le> of_int (3 * 2 ^ 51 - 1)"
    by (simp only: of_int_le_iff)
  then have "(of_int (roundHalfEven (x / ulp x)) :: real) * (1 / 2 ^ 51)
      \<le> of_int (3 * 2 ^ 51 - 1) * (1 / 2 ^ 51)"
    by (rule mult_right_mono) simp
  also have "\<dots> < 3" by simp
  finally have "(of_int (roundHalfEven (x / ulp x)) :: real) * ulp x < 3"
    by (simp add: u)
  with assms(1) show ?thesis by (simp add: roundToDouble_def)
qed

text \<open>The largest double below 1 is \<open>1 - 1 / 2 ^ 53\<close>.\<close>

lemma double_below_one:
  assumes "isDouble r" and "r < 1"
  shows "r \<le> 1 - 1 / 2 ^ 53"
proof -
  from assms(1) obtain m :: int and k :: nat where m: "\<bar>m\<bar> < 2 ^ 53"
    and r: "r = of_int m * 2 ^ k \<or> r = of_int m / 2 ^ k"
    unfolding isDouble_def by blast
  from r show ?thesis
  proof
    assume "r = of_int m * 2 ^ k"
    then have "r = of_int (m * 2 ^ k)" by simp
    with assms(2) have "m * 2 ^ k < 1"
      by (metis of_int_less_1_iff)
    then have "m * 2 ^ k \<le> 0" by simp
    then have "r \<le> 0" using \<open>r = of_int (m * 2 ^ k)\<close> by (metis of_int_le_0_iff)
    then show ?thesis by simp
  next
    assume d: "r = of_int m / 2 ^ k"
    show ?thesis
    proof (cases "k \<le> 53")
      case True
      from d assms(2) have "of_int m < (2 :: real) ^ k"
        by (simp add: divide_less_eq)
      then have "of_int m < (of_int (2 ^ k) :: real)" by simp
      then have "m < 2 ^ k" by (simp only: of_int_less_iff)
      then have "m \<le> 2 ^ k - 1" by simp
      then have "(of_int m :: real) \<le> of_int (2 ^ k - 1)" by (simp only: of_int_le_iff)
      then have "(of_int m :: real) \<le> 2 ^ k - 1" by simp
      then have "r \<le> (2 ^ k - 1) / 2 ^ k"
        unfolding d by (rule divide_right_mono) simp
      also have "\<dots> = 1 - 1 / 2 ^ k" by (simp add: diff_divide_distrib)
      also have "\<dots> \<le> 1 - 1 / 2 ^ 53"
      proof -
        have "(2 :: real) ^ k \<le> 2 ^ 53" using True by (intro power_increasing) simp_all
        then have "1 / (2 :: real) ^ 53 \<le> 1 / 2 ^ k"
          by (intro divide_left_mono) simp_all
        then show ?thesis by linarith
      qed
      finally show ?thesis .
    next
      case False
      then have "54 \<le> k" by simp
      then have p: "(2 :: real) ^ 54 \<le> 2 ^ k" by (intro power_increasing) simp_all
      from m have "m < 2 ^ 53" by simp
      then have "(of_int m :: real) < of_int (2 ^ 53)" by (simp only: of_int_less_iff)
      then have "(of_int m :: real) \<le> 2 ^ 53" by simp
      then have "r \<le> 2 ^ 53 / 2 ^ k"
        unfolding d by (intro divide_right_mono) simp_all
      also have "\<dots> \<le> 2 ^ 53 / 2 ^ 54"
        using p by (intro divide_left_mono) simp_all
      also have "\<dots> \<le> 1 - 1 / 2 ^ 53" by simp
      finally show ?thesis .
    qed
  qed
qed

lemma random_product_range:
  assumes "isDouble r" and "0 \<le> r" and "r < 1"
  shows "0 \<le> js_times r 3 \<and> js_times r 3 < 3"
proof -
  have nonneg: "0 \<le> roundToDouble (r * 3)"
    using assms(2) by (intro roundToDouble_nonneg) simp
  have b: "r * 3 \<le> 3 - 3 / 2 ^ 53"
    using double_below_one [OF assms(1,3)] by simp
  have "roundToDouble (r * 3) < 3"
  proof (cases "2 \<le> r * 3")
    case True
    then show ?thesis using b by (rule roundToDouble_below_three)
  next
    case False
    show ?thesis
    proof (cases "r * 3 = 0")
      case True
      then show ?thesis by (simp add: roundToDouble_def)
    next
      case nz: False
      with assms(2) have "0 < r * 3" by simp
      moreover from False have "r * 3 < 2" by simp
      ultimately have "roundToDouble (r * 3) \<le> 2" by (rule roundToDouble_below_two)
      then show ?thesis by simp
    qed
  qed
  with nonneg show ?thesis by (simp add: js_times_def)
qed

lemma getRandomBoundaryType_range:
  assumes "isDouble r" and "0 \<le> r" and "r < 1"
  shows "getRandomBoundaryType r \<in> boundaryTypes"
proof -
  define i where "i = \<lfloor>js_times r 3\<rfloor>"
  from random_product_range [OF assms] have "0 \<le> js_times r 3" "js_times r 3 < 3"
    by simp_all
  then have "0 \<le> i" "i < 3"
    unfolding i_def by (simp_all add: floor_less_iff)
  then consider "i = 0" | "i = 1" | "i = 2" by linarith
  moreover have "getRandomBoundaryType r =
      (if 0 \<le> i \<and> i < 3 then Some ([''Convergent'', ''Divergent'', ''Transform''] ! nat i)
       else None)"
    unfolding getRandomBoundaryType_def Let_def i_def by simp
  ultimately show ?thesis
    by cases (simp_all add: boundaryTypes_def)
qed

text \<open>The rounding decides the type: for the double next below two thirds the exact
  product is below 2, and the double product is 2.\<close>

lemma random_product_is_rounded:
  "\<lfloor>6004799503160661 / 2 ^ 53 * 3 :: real\<rfloor> = 1 \<and>
   getRandomBoundaryType (6004799503160661 / 2 ^ 53) = Some ''Transform''"
  by (simp add: getRandomBoundaryType_def double_defs Let_def)

lemma isDouble_samples: "isDouble 0" "isDouble (1 / 2)" "isDouble (3 / 4)"
proof -
  show "isDouble 0"
    unfolding isDouble_def by (rule exI [of _ 0], rule exI [of _ 0]) simp
  show "isDouble (1 / 2)"
    unfolding isDouble_def by (rule exI [of _ 1], rule exI [of _ 1]) simp
  show "isDouble (3 / 4)"
    unfolding isDouble_def by (rule exI [of _ 3], rule exI [of _ 2]) simp
qed

subsection \<open>Boundary types\<close>

lemma typed_lookups:
  assumes "boundaryType f \<in> boundaryTypes"
  shows "(\<exists>c. getMember boundaryColors (boundaryKey f) = Own c) \<and>
         styleColor f \<noteq> Own ''#FF00FF'' \<and>
         (\<exists>d. getMember boundaryDescriptions (boundaryKey f) = Own d)"
  using assms
  by (auto simp: boundaryTypes_def boundaryKey_def styleColor_def getMember_def
      boundaryColors_def boundaryDescriptions_def)

lemma step_keeps_types:
  assumes "properDraws a"
    and "list_all (\<lambda>f. boundaryType f \<in> boundaryTypes) (loadedBoundaries st)"
  shows "list_all (\<lambda>f. boundaryType f \<in> boundaryTypes) (loadedBoundaries (step a st))"
proof (cases a)
  case (PlatesArrive res)
  show ?thesis
  proof (cases res)
    case Failed
    with PlatesArrive assms show ?thesis by (simp add: fetchPlates_def)
  next
    case (Ok features)
    with PlatesArrive assms(1) show ?thesis
      by (simp add: fetchPlates_def loadedBoundaries_def list_all_iff
          getRandomBoundaryType_range)
  qed
next
  case (EarthquakesArrive i res)
  with assms(2) show ?thesis
    by (simp add: earthquakesArrive_def loadedBoundaries_def Let_def split: response.split)
next
  case (SearchClick res)
  with assms(2) show ?thesis
    by (simp add: handleSearch_def loadedBoundaries_def split: response.split list.split)
qed (use assms(2) in \<open>simp_all add: loadedBoundaries_def selectTimeRange_def\<close>)

lemma run_keeps_types:
  "list_all properDraws as \<Longrightarrow>
   list_all (\<lambda>f. boundaryType f \<in> boundaryTypes) (loadedBoundaries st) \<Longrightarrow>
   list_all (\<lambda>f. boundaryType f \<in> boundaryTypes) (loadedBoundaries (run as st))"
proof (induction as arbitrary: st)
  case Nil
  then show ?case by (simp add: run_def)
next
  case (Cons a as)
  from Cons.prems have "list_all (\<lambda>f. boundaryType f \<in> boundaryTypes) (loadedBoundaries (step a st))"
    by (simp add: step_keeps_types)
  with Cons.IH [of "step a st"] Cons.prems(1) show ?case
    by (simp add: run_def)
qed

text \<open>
  C10. The assignment function returns one of Convergent, Divergent and Transform for
  every value that \<open>Math.random()\<close> can return, a double from 0 up to, not including,
  1, the product being computed in double arithmetic. In every state that a session reaches,
  whatever the operations and their order, every loaded boundary segment carries one of
  the three types, so the colour and the description are found in their tables and the
  fallback colour is never used.
\<close>

theorem boundary_types_invariant:
  assumes "list_all properDraws as"
  shows "(\<forall>r. isDouble r \<and> 0 \<le> r \<and> r < 1 \<longrightarrow>
            getRandomBoundaryType r \<in> boundaryTypes) \<and>
     (\<forall>f \<in> set (loadedBoundaries (run as initialState)).
        boundaryType f \<in> boundaryTypes \<and>
        (\<exists>c. getMember boundaryColors (boundaryKey f) = Own c) \<and>
        styleColor f \<noteq> Own ''#FF00FF'' \<and>
        (\<exists>d. getMember boundaryDescriptions (boundaryKey f) = Own d))"
proof -
  have "list_all (\<lambda>f. boundaryType f \<in> boundaryTypes) (loadedBoundaries initialState)"
    by (simp add: loadedBoundaries_def initialState_def)
  with assms have
    "list_all (\<lambda>f. boundaryType f \<in> boundaryTypes) (loadedBoundaries (run as initialState))"
    by (rule run_keeps_types)
  then show ?thesis
    using typed_lookups getRandomBoundaryType_range by (simp add: list_all_iff)
qed

theorem boundary_types_invariant_witness:
  "list_all properDraws sampleSession \<and>
   map boundaryType (loadedBoundaries (run sampleSession initialState)) =
     [Some ''Convergent'', Some ''Divergent'', Some ''Transform''] \<and>
   list_all (\<lambda>f. boundaryType f \<in> boundaryTypes \<and> styleColor f \<noteq> Own ''#FF00FF'')
     (loadedBoundaries (run sampleSession initialState))"
proof -
  have h: "list_all properDraws sampleSession"
    by (simp add: sampleSession_def rawBoundaries_def isDouble_samples)
  have m: "map boundaryType (loadedBoundaries (run sampleSession initialState)) =
     [Some ''Convergent'', Some ''Divergent'', Some ''Transform'']"
    by (simp add: sampleSession_def rawBoundaries_def session_defs loadedBoundaries_def
        initialState_def getRandomBoundaryType_def double_defs Let_def)
  from boundary_types_invariant [OF h]
  have "list_all (\<lambda>f. boundaryType f \<in> boundaryTypes \<and> styleColor f \<noteq> Own ''#FF00FF'')
     (loadedBoundaries (run sampleSession initialState))"
    by (simp add: list_all_iff)
  with h m show ?thesis by blast
qed

section \<open>Properties of the ranking\<close>

subsection \<open>First occurrences\<close>

lemma set_firstOccurrences [simp]: "set (firstOccurrences xs) = set xs"
  by (induction xs) auto

lemma distinct_firstOccurrences [simp]: "distinct (firstOccurrences xs)"
  by (induction xs) (auto simp: distinct_removeAll)



subsection \<open>Counting with an object\<close>











subsection \<open>The stable sort\<close>





lemmas ranking_defs =
  rankedLocations_def locationCounts_def placeOrUnknown_def increment_def
  objectPrototypeMembers_def objectEntries_def isArrayIndex_def decimalValue_def
  numericEntries_def array_sort_def locationLabel_def showNat.simps




section \<open>The scenario of the specification\<close>

text \<open>Magnitudes 2, 6 and 4 at the places X, Y, X,
  under the widest criteria.\<close>

lemma scenario_report:
  "stats asciiToLowerCase scenarioState =
     Some \<lparr>total = 3, highMagCount = 1, medMagCount = 1, lowMagCount = 1,
           avgMag = Some 4, maxMag = Finite 6, minMag = Finite 2,
           stat_maxDepth = Finite 600, stat_minDepth = Finite 10,
           topLocations = Some [''X (2)'', ''Y (1)''], plateCounts = []\<rparr>"
proof -
  have fe: "filteredEarthquakes asciiToLowerCase scenarioState = [quakeX2, quakeY6, quakeX4]"
    by (simp add: filter_defs sample_defs)
  have pl: "plates scenarioState = None"
    by (simp add: sample_defs)
  show ?thesis
    unfolding stats_def fe pl
    by (simp add: summarize_def ranking_defs countPlates_def depthOf_def js_ge_def js_lt_def
        js_add_def quakeX2_def quakeY6_def quakeX4_def double_defs Let_def)
qed

end
